theory Spec2Isabelle
  imports Main "HOL-Library.AList"
begin

section \<open>JavaScript strings and numbers\<close>

text \<open>
  Strings are lists of code units below 256 (ASCII and Latin-1). Numbers are the integers
  among the JavaScript numbers, written in decimal by \<open>String\<close>; fractions, \<open>NaN\<close> apart
  from the one \<open>parseInt\<close> returns, and magnitudes beyond exact double precision are not
  modelled. The static tables of the transformer are read by their own keys only: the
  names that every JavaScript object inherits from its prototype (\<open>constructor\<close>,
  \<open>toString\<close>, \<open>valueOf\<close>, \<open>hasOwnProperty\<close>, \<open>isPrototypeOf\<close>,
  \<open>propertyIsEnumerable\<close>, \<open>toLocaleString\<close>, \<open>__proto__\<close> and the four
  \<open>__defineGetter__\<close>-like names) are taken not to occur as property or function names.
\<close>

definition js_ws :: "char \<Rightarrow> bool" where
  \<comment> \<open>white space and line terminators: what \<open>trim\<close>, \<open>\\s\<close> and \<open>parseInt\<close> skip\<close>
  "js_ws c \<longleftrightarrow> c \<in> set [CHR 0x09, CHR 0x0A, CHR 0x0B, CHR 0x0C, CHR 0x0D, CHR 0x20, CHR 0xA0]"

definition is_digit :: "char \<Rightarrow> bool" where
  "is_digit c \<longleftrightarrow> c \<in> set ''0123456789''"

definition is_alpha :: "char \<Rightarrow> bool" where
  "is_alpha c \<longleftrightarrow> c \<in> set ''abcdefghijklmnopqrstuvwxyzABCDEFGHIJKLMNOPQRSTUVWXYZ''"

definition upper_chars :: string where
  "upper_chars = ''ABCDEFGHIJKLMNOPQRSTUVWXYZ'' @
     [CHR 0xC0, CHR 0xC1, CHR 0xC2, CHR 0xC3, CHR 0xC4, CHR 0xC5, CHR 0xC6, CHR 0xC7,
      CHR 0xC8, CHR 0xC9, CHR 0xCA, CHR 0xCB, CHR 0xCC, CHR 0xCD, CHR 0xCE, CHR 0xCF,
      CHR 0xD0, CHR 0xD1, CHR 0xD2, CHR 0xD3, CHR 0xD4, CHR 0xD5, CHR 0xD6,
      CHR 0xD8, CHR 0xD9, CHR 0xDA, CHR 0xDB, CHR 0xDC, CHR 0xDD, CHR 0xDE]"

definition lower_chars :: string where
  "lower_chars = ''abcdefghijklmnopqrstuvwxyz'' @
     [CHR 0xE0, CHR 0xE1, CHR 0xE2, CHR 0xE3, CHR 0xE4, CHR 0xE5, CHR 0xE6, CHR 0xE7,
      CHR 0xE8, CHR 0xE9, CHR 0xEA, CHR 0xEB, CHR 0xEC, CHR 0xED, CHR 0xEE, CHR 0xEF,
      CHR 0xF0, CHR 0xF1, CHR 0xF2, CHR 0xF3, CHR 0xF4, CHR 0xF5, CHR 0xF6,
      CHR 0xF8, CHR 0xF9, CHR 0xFA, CHR 0xFB, CHR 0xFC, CHR 0xFD, CHR 0xFE]"

definition lower_char :: "char \<Rightarrow> char" where
  "lower_char c = (case map_of (zip upper_chars lower_chars) c of Some l \<Rightarrow> l | None \<Rightarrow> c)"

definition toLowerCase :: "string \<Rightarrow> string" where
  "toLowerCase s = map lower_char s"

definition trim :: "string \<Rightarrow> string" where
  "trim s = rev (dropWhile js_ws (rev (dropWhile js_ws s)))"

definition startsWith :: "string \<Rightarrow> string \<Rightarrow> bool" where
  \<comment> \<open>\<open>s.startsWith(p)\<close>\<close>
  "startsWith s p \<longleftrightarrow> take (length p) s = p"

definition endsWith :: "string \<Rightarrow> string \<Rightarrow> bool" where
  \<comment> \<open>\<open>s.endsWith(p)\<close>\<close>
  "endsWith s p \<longleftrightarrow> length p \<le> length s \<and> drop (length s - length p) s = p"

definition quoted :: "string \<Rightarrow> string" where
  \<comment> \<open>the text between two double quotes\<close>
  "quoted s = CHR 0x22 # s @ [CHR 0x22]"

function show_nat :: "nat \<Rightarrow> string" where
  "show_nat n =
     (if n < 10 then [''0123456789'' ! n]
      else show_nat (n div 10) @ [''0123456789'' ! (n mod 10)])"
  by pat_completeness auto
termination
  by (relation "measure id") auto

declare show_nat.simps [simp del]

definition show_int :: "int \<Rightarrow> string" where
  \<comment> \<open>\<open>String(n)\<close> for an integer \<open>n\<close>\<close>
  "show_int n = (if n < 0 then CHR ''-'' # show_nat (nat (- n)) else show_nat (nat n))"

definition padStart2 :: "string \<Rightarrow> string" where
  \<comment> \<open>\<open>s.padStart(2, "0")\<close>\<close>
  "padStart2 s = replicate (2 - length s) CHR ''0'' @ s"

definition digit_val :: "char \<Rightarrow> nat" where
  "digit_val c = length (takeWhile (\<lambda>d. d \<noteq> lower_char c) ''0123456789abcdef'')"

definition digits_value :: "nat \<Rightarrow> string \<Rightarrow> nat" where
  "digits_value radix ds = foldl (\<lambda>a c. a * radix + digit_val c) 0 ds"

definition is_hex :: "char \<Rightarrow> bool" where
  "is_hex c \<longleftrightarrow> c \<in> set ''0123456789abcdefABCDEF''"

definition parseInt :: "string \<Rightarrow> int option" where
  \<comment> \<open>\<open>parseInt(s)\<close> with no radix; \<open>None\<close> is \<open>NaN\<close>\<close>
  "parseInt s =
     (let s1 = dropWhile js_ws s;
          neg = (s1 \<noteq> [] \<and> hd s1 = CHR ''-'');
          s2 = (if s1 \<noteq> [] \<and> (hd s1 = CHR ''-'' \<or> hd s1 = CHR ''+'') then tl s1 else s1);
          hex = (take 2 s2 = ''0x'' \<or> take 2 s2 = ''0X'');
          s3 = (if hex then drop 2 s2 else s2);
          ds = takeWhile (if hex then is_hex else is_digit) s3
      in if ds = [] then None
         else Some ((if neg then - 1 else 1) * int (digits_value (if hex then 16 else 10) ds)))"

definition show_num :: "int option \<Rightarrow> string" where
  \<comment> \<open>\<open>String\<close> of a number that may be \<open>NaN\<close>\<close>
  "show_num n = (case n of None \<Rightarrow> ''NaN'' | Some k \<Rightarrow> show_int k)"

definition join :: "string \<Rightarrow> string list \<Rightarrow> string" where
  \<comment> \<open>\<open>xs.join(sep)\<close> on strings\<close>
  "join sep xs = (case xs of [] \<Rightarrow> [] | y # ys \<Rightarrow> y @ concat (map (\<lambda>z. sep @ z) ys))"

function replace_ws_runs :: "string \<Rightarrow> string" where
  \<comment> \<open>\<open>s.replace(/\\s+/g, "_")\<close>\<close>
  "replace_ws_runs [] = []"
| "replace_ws_runs (c # cs) =
     (if js_ws c then CHR ''_'' # replace_ws_runs (dropWhile js_ws cs)
      else c # replace_ws_runs cs)"
  by pat_completeness auto
termination
  by (relation "measure length") (auto simp: length_dropWhile_le less_Suc_eq_le)

definition strip_quote_ends :: "string \<Rightarrow> string" where
  \<comment> \<open>\<open>s.replace(/^"/, "").replace(/"$/, "")\<close>\<close>
  "strip_quote_ends s =
     (let t = (if s \<noteq> [] \<and> hd s = CHR 0x22 then tl s else s)
      in if t \<noteq> [] \<and> last t = CHR 0x22 then butlast t else t)"

definition match_at :: "string \<Rightarrow> (string \<times> string) option" where
  \<comment> \<open>\<open>(\\d+)\\s*([a-zA-Z]+)\<close> at the start of the text. Each of the three parts is
      greedy and the characters of one part cannot begin the next, so giving characters
      back never turns a failure into a match.\<close>
  "match_at s =
     (let num = takeWhile is_digit s;
          unit = takeWhile is_alpha (dropWhile js_ws (dropWhile is_digit s))
      in if num \<noteq> [] \<and> unit \<noteq> [] then Some (num, unit) else None)"

fun durMatch :: "string \<Rightarrow> (string \<times> string) option" where
  \<comment> \<open>\<open>s.match(/(\\d+)\\s*([a-zA-Z]+)/)\<close>: the leftmost match, its two groups\<close>
  "durMatch [] = None"
| "durMatch (c # cs) =
     (case match_at (c # cs) of Some g \<Rightarrow> Some g | None \<Rightarrow> durMatch cs)"

section \<open>The query AST\<close>

text \<open>
  Modelled from the spec: the declarations of \<open>Field\<close> and \<open>Source\<close> (the files
  \<open>field.ts\<close> and \<open>source-types.ts\<close>) are not among the sources; the variants are those
  of the spec's data model, the field names those the transformer reads. A date literal
  is luxon's \<open>DateTime\<close>, a duration literal luxon's \<open>Duration\<close> with its seven
  components.
\<close>

record duration =
  years :: int
  months :: int
  weeks :: int
  days :: int
  hours :: int
  minutes :: int
  seconds :: int

datatype literal =
    LString string
  | LNumber int
  | LBoolean bool
  | LNull
  | LDate string \<comment> \<open>a \<open>DateTime\<close>, given by its \<open>toISODate()\<close>\<close>
  | LDuration duration \<comment> \<open>a \<open>Duration\<close>\<close>

datatype binop = Eq | Neq | Gt | Ge | Lt | Le | Plus | Minus | Times | Divide | Modulo | Amp | Bar

datatype field =
    Variable string
  | Literal literal
  | Index field field \<comment> \<open>\<open>object\<close>, \<open>index\<close>\<close>
  | BinaryOp binop field field \<comment> \<open>\<open>op\<close>, \<open>left\<close>, \<open>right\<close>\<close>
  | Function field "field list" \<comment> \<open>\<open>func\<close>, \<open>arguments\<close>\<close>
  | Negated field
  | ListF "field list"

datatype source =
    Folder string
  | Tag string
  | Link string
  | NegatedSource source
  | BinaryOpSource string source source \<comment> \<open>\<open>op\<close>, \<open>left\<close>, \<open>right\<close>\<close>
  | Empty

text \<open>The query, its header and its operations are those of \<open>query-types.ts\<close>.\<close>

record namedField =
  name :: string
  field :: field

datatype direction = Ascending | Descending

datatype queryHeader =
    TableQuery "namedField list" bool \<comment> \<open>\<open>fields\<close>, \<open>showId\<close>\<close>
  | ListQuery "field option" bool
  | TaskQuery
  | CalendarQuery namedField

datatype queryOperation =
    WhereStep field
  | SortByStep "(field \<times> direction) list"
  | LimitStep field
  | FlattenStep namedField
  | GroupStep namedField
  | ExtractStep "(string \<times> field) list"

record query =
  header :: queryHeader
  source :: source
  operations :: "queryOperation list"

section \<open>Lowered values\<close>

text \<open>
  The transformer is typed \<open>any\<close>: a lowered expression is a string, a one-key object
  \<open>{and: [...]}\<close>, \<open>{or: [...]}\<close> or \<open>{not: [...]}\<close>, or \<open>null\<close>.
\<close>

datatype gkey = KAnd | KOr | KNot

datatype bval = Str string | Group gkey "bval list" | Null

datatype error =
    TypeError \<comment> \<open>a string method called on an object or on \<open>null\<close>\<close>
  | Unsupported string \<comment> \<open>\<open>new Error(message)\<close>\<close>

definition js_String :: "bval \<Rightarrow> string" where
  \<comment> \<open>what a template literal makes of a value\<close>
  "js_String v =
     (case v of Str s \<Rightarrow> s | Group k xs \<Rightarrow> ''[object Object]'' | Null \<Rightarrow> ''null'')"

definition join_item :: "bval \<Rightarrow> string" where
  \<comment> \<open>what \<open>Array.prototype.join\<close> makes of an element\<close>
  "join_item v =
     (case v of Str s \<Rightarrow> s | Group k xs \<Rightarrow> ''[object Object]'' | Null \<Rightarrow> [])"

definition truthy :: "bval \<Rightarrow> bool" where
  "truthy v = (case v of Str s \<Rightarrow> s \<noteq> [] | Group k xs \<Rightarrow> True | Null \<Rightarrow> False)"

definition bindE :: "error + 'a \<Rightarrow> ('a \<Rightarrow> error + 'b) \<Rightarrow> error + 'b" where
  "bindE m f = (case m of Inl e \<Rightarrow> Inl e | Inr x \<Rightarrow> f x)"

fun sequenceE :: "(error + 'a) list \<Rightarrow> error + 'a list" where
  \<comment> \<open>\<open>xs.map(f)\<close> where \<open>f\<close> may raise: the first exception ends the map\<close>
  "sequenceE [] = Inr []"
| "sequenceE (m # ms) = bindE m (\<lambda>x. bindE (sequenceE ms) (\<lambda>xs. Inr (x # xs)))"

definition as_string :: "bval \<Rightarrow> error + string" where
  \<comment> \<open>the receiver of \<open>.replace\<close>, \<open>.match\<close> or \<open>.startsWith\<close>\<close>
  "as_string v = (case v of Str s \<Rightarrow> Inr s | Group k xs \<Rightarrow> Inl TypeError | Null \<Rightarrow> Inl TypeError)"

section \<open>The transformer\<close>

subsection \<open>Property names and logical groups\<close>

definition propertyMap :: "string \<rightharpoonup> string" where
  "propertyMap = map_of
     [(''file.path'', ''file.path''),
      (''file.name'', ''file.name''),
      (''file.folder'', ''file.folder''),
      (''file.ext'', ''file.ext''),
      (''file.size'', ''file.size''),
      (''file.ctime'', ''file.ctime''),
      (''file.mtime'', ''file.mtime''),
      (''file.cday'', ''file.ctime''),
      (''file.mday'', ''file.mtime''),
      (''tags'', ''tags'')]"

definition mapDataviewPropertyToBaseProperty :: "string \<Rightarrow> string" where
  "mapDataviewPropertyToBaseProperty p =
     (let prop = trim p in
      case propertyMap prop of
        Some mapped \<Rightarrow> mapped
      | None \<Rightarrow>
          if CHR ''-'' \<in> set prop
          then map (\<lambda>c. if c = CHR ''-'' then CHR ''_'' else c) prop
          else prop)"

fun flattened :: "gkey \<Rightarrow> bval list \<Rightarrow> bval list" where
  \<comment> \<open>the loop of \<open>flattenLogicalOperations\<close>\<close>
  "flattened operator [] = []"
| "flattened operator (Group k xs # ops) =
     (if k = operator then xs @ flattened operator ops
      else Group k xs # flattened operator ops)"
| "flattened operator (Str s # ops) = Str s # flattened operator ops"
| "flattened operator (Null # ops) = flattened operator ops"

definition flattenLogicalOperations :: "gkey \<Rightarrow> bval list \<Rightarrow> bval" where
  "flattenLogicalOperations operator ops =
     (let fl = flattened operator ops in
      if length fl = 1 then fl ! 0
      else if length fl > 0 then Group operator fl else Null)"

subsection \<open>Literals\<close>

definition duration_text :: "int \<Rightarrow> string \<Rightarrow> string" where
  \<comment> \<open>one line of the duration branch of \<open>transformLiteral\<close>\<close>
  "duration_text n unit =
     quoted (show_int n @ '' '' @ unit @ (if n \<noteq> 1 then ''s'' else []))"

definition transformLiteral :: "literal \<Rightarrow> string" where
  "transformLiteral v =
     (case v of
        LString s \<Rightarrow> quoted s
      | LNumber n \<Rightarrow> show_int n
      | LBoolean b \<Rightarrow> (if b then ''true'' else ''false'')
      | LNull \<Rightarrow> ''null''
      | LDate isoDate \<Rightarrow> ''date('' @ quoted isoDate @ '')''
      | LDuration dur \<Rightarrow>
          if years dur \<noteq> 0 then duration_text (years dur) ''year''
          else if months dur \<noteq> 0 then duration_text (months dur) ''month''
          else if weeks dur \<noteq> 0 then duration_text (weeks dur) ''week''
          else if days dur \<noteq> 0 then duration_text (days dur) ''day''
          else if hours dur \<noteq> 0 then duration_text (hours dur) ''hour''
          else if minutes dur \<noteq> 0 then duration_text (minutes dur) ''minute''
          else if seconds dur \<noteq> 0 then duration_text (seconds dur) ''second''
          else quoted ''0 days'')"

subsection \<open>Structural tests on fields\<close>

fun isFormulaField :: "field \<Rightarrow> bool" where
  "isFormulaField (Variable n) = False"
| "isFormulaField (Index obj idx) = isFormulaField obj"
| "isFormulaField f = True"

definition variableName :: "field \<Rightarrow> string option" where
  \<comment> \<open>the name, where \<open>f.type === "variable"\<close>\<close>
  "variableName f = (case f of Variable n \<Rightarrow> Some n | _ \<Rightarrow> None)"

definition numberLiteral :: "field \<Rightarrow> int option" where
  \<comment> \<open>the value, where \<open>f.type === "literal" && typeof f.value === "number"\<close>\<close>
  "numberLiteral f =
     (case f of Literal v \<Rightarrow> (case v of LNumber n \<Rightarrow> Some n | _ \<Rightarrow> None) | _ \<Rightarrow> None)"

definition isDateTimeLiteral :: "field \<Rightarrow> bool" where
  \<comment> \<open>\<open>f.type === "literal" && f.value instanceof DateTime\<close>\<close>
  "isDateTimeLiteral f =
     (case f of Literal v \<Rightarrow> (case v of LDate isoDate \<Rightarrow> True | _ \<Rightarrow> False) | _ \<Rightarrow> False)"

definition calledName :: "field \<Rightarrow> string option" where
  \<comment> \<open>the name, where \<open>f.type === "function" && f.func.type === "variable"\<close>\<close>
  "calledName f = (case f of Function func args \<Rightarrow> variableName func | _ \<Rightarrow> None)"

definition isDateExpression :: "field \<Rightarrow> bool" where
  "isDateExpression f =
     (case calledName f of
        Some n \<Rightarrow> toLowerCase n = ''date'' \<or> toLowerCase n = ''now''
      | None \<Rightarrow> isDateTimeLiteral f)"

definition filterFunctions :: "string list" where
  "filterFunctions =
     [''contains'', ''containsAny'', ''containsAll'', ''startswith'', ''endswith'',
      ''empty'', ''notEmpty'', ''hasTag'', ''hasLink'', ''inFolder'']"

definition isFilterExpression :: "field \<Rightarrow> bool" where
  "isFilterExpression f =
     (case f of
        BinaryOp op l r \<Rightarrow> op \<in> set [Eq, Neq, Gt, Ge, Lt, Le]
      | Function func args \<Rightarrow>
          (case variableName func of
             Some n \<Rightarrow> toLowerCase n \<in> set filterFunctions
           | None \<Rightarrow> False)
      | Negated c \<Rightarrow> True
      | _ \<Rightarrow> False)"

definition isLogicalObject :: "bval \<Rightarrow> bool" where
  "isLogicalObject v = (case v of Group k xs \<Rightarrow> k = KAnd \<or> k = KOr | _ \<Rightarrow> False)"

definition dateParts :: "field \<Rightarrow> (field \<times> field \<times> field) option" where
  \<comment> \<open>the operands of \<open>a - (b - c)\<close>\<close>
  "dateParts f =
     (case f of
        BinaryOp op l r \<Rightarrow>
          (if op = Minus then
             (case r of
                BinaryOp op' rl rr \<Rightarrow> if op' = Minus then Some (l, rl, rr) else None
              | _ \<Rightarrow> None)
           else None)
      | _ \<Rightarrow> None)"

definition isDateLikeExpression :: "field \<Rightarrow> bool" where
  "isDateLikeExpression f =
     (case dateParts f of
        Some (l, rl, rr) \<Rightarrow>
          (case (numberLiteral l, numberLiteral rl, numberLiteral rr) of
             (Some y, Some m, Some d) \<Rightarrow>
               y \<ge> 1900 \<and> y \<le> 2100 \<and> m \<ge> 1 \<and> m \<le> 12 \<and> d \<ge> 1 \<and> d \<le> 31
           | _ \<Rightarrow> False)
      | None \<Rightarrow> False)"

definition extractDateString :: "field \<Rightarrow> string option" where
  \<comment> \<open>called on date-like expressions only, whose three parts are number literals\<close>
  "extractDateString f =
     (case dateParts f of
        Some (l, rl, rr) \<Rightarrow>
          (case (numberLiteral l, numberLiteral rl, numberLiteral rr) of
             (Some y, Some m, Some d) \<Rightarrow>
               Some (show_int y @ ''-'' @ padStart2 (show_int m) @ ''-'' @ padStart2 (show_int d))
           | _ \<Rightarrow> None)
      | None \<Rightarrow> None)"

subsection \<open>Function calls\<close>

definition functionMap :: "string \<rightharpoonup> string" where
  "functionMap = map_of
     [(''round'', ''round''), (''floor'', ''floor''), (''ceil'', ''ceil''), (''abs'', ''abs''),
      (''min'', ''min''), (''max'', ''max''), (''sum'', ''sum''), (''avg'', ''average''),
      (''length'', ''length''), (''contains'', ''contains''),
      (''containsany'', ''containsAny''), (''containsall'', ''containsAll''),
      (''startswith'', ''startsWith''), (''endswith'', ''endsWith''),
      (''empty'', ''isEmpty''), (''notempty'', ''!isEmpty''), (''dateformat'', ''format''),
      (''date'', ''date''), (''now'', ''now''), (''dur'', ''duration''),
      (''year'', ''year''), (''month'', ''month''), (''day'', ''day''), (''hour'', ''hour''),
      (''minute'', ''minute''), (''second'', ''second''), (''millisecond'', ''millisecond''),
      (''tofixed'', ''toFixed''), (''tostring'', ''toString''), (''trim'', ''trim''),
      (''title'', ''title''), (''split'', ''split''), (''replace'', ''replace''),
      (''slice'', ''slice''), (''reverse'', ''reverse''), (''join'', ''join''),
      (''sort'', ''sort''), (''flat'', ''flat''), (''unique'', ''unique'')]"

definition funcName_of :: "field \<Rightarrow> string" where
  "funcName_of func =
     (case func of
        Variable n \<Rightarrow> n
      | Literal v \<Rightarrow> (case v of LString s \<Rightarrow> s | _ \<Rightarrow> [])
      | _ \<Rightarrow> [])"

definition date_keyword :: "string \<Rightarrow> string option" where
  \<comment> \<open>the \<open>switch\<close> on today, tomorrow and yesterday, on a lower-cased word\<close>
  "date_keyword w =
     (if w = ''today'' then Some ''now()''
      else if w = ''tomorrow'' then Some (''now() + '' @ quoted ''1 day'')
      else if w = ''yesterday'' then Some (''now() + '' @ quoted ''-1 day'')
      else None)"

definition date_before_arguments :: "string \<Rightarrow> field list \<Rightarrow> string option" where
  \<comment> \<open>the handling of \<open>date\<close> before the arguments are transformed; \<open>None\<close> falls through\<close>
  "date_before_arguments basesFunc args =
     (if basesFunc = ''date'' \<and> length args = 1 then
        (case (case variableName (args ! 0) of
                 Some n \<Rightarrow> date_keyword (toLowerCase n)
               | None \<Rightarrow> None) of
           Some text \<Rightarrow> Some text
         | None \<Rightarrow>
             if isDateLikeExpression (args ! 0) then
               (case extractDateString (args ! 0) of
                  Some dateStr \<Rightarrow> if dateStr \<noteq> [] then Some (''date('' @ quoted dateStr @ '')'') else None
                | None \<Rightarrow> None)
             else None)
      else None)"

definition duration_call :: "string \<Rightarrow> string \<Rightarrow> string" where
  \<comment> \<open>the \<open>duration\<close> case once the pattern has matched, on its two groups\<close>
  "duration_call num unit =
     (let numVal = parseInt num; unitName = toLowerCase unit in
      if startsWith unitName ''week'' then
        (let dayCount = map_option (\<lambda>n. n * 7) numVal
         in quoted (show_num dayCount @ '' day'' @ (if dayCount \<noteq> Some 1 then ''s'' else [])))
      else
        (let unitName' =
               (if numVal \<noteq> Some 1 \<and> \<not> endsWith unitName ''s'' then unitName @ ''s''
                else if numVal = Some 1 \<and> endsWith unitName ''s'' then butlast unitName
                else unitName)
         in quoted (num @ '' '' @ unitName')))"

definition call_text :: "string \<Rightarrow> bval list \<Rightarrow> string" where
  "call_text basesFunc args = basesFunc @ ''('' @ join '', '' (map join_item args) @ '')''"

definition function_switch :: "string \<Rightarrow> bval list \<Rightarrow> error + bval" where
  \<comment> \<open>the \<open>switch (basesFunc)\<close> on the transformed arguments, and the final return\<close>
  "function_switch basesFunc args =
     (if basesFunc = ''contains'' \<and> length args = 2 \<and> args ! 0 = Str ''tags'' then
        bindE (as_string (args ! 1)) (\<lambda>a.
          Inr (Str (''file.hasTag('' @ quoted (strip_quote_ends a) @ '')'')))
      else if basesFunc = ''date'' \<and> length args = 1 then
        bindE (as_string (args ! 0)) (\<lambda>a.
          case date_keyword (toLowerCase (strip_quote_ends a)) of
            Some text \<Rightarrow> Inr (Str text)
          | None \<Rightarrow> Inr (Str (''date('' @ a @ '')'')))
      else if basesFunc = ''duration'' \<and> length args = 1 then
        bindE (as_string (args ! 0)) (\<lambda>a.
          case durMatch a of
            Some (num, unit) \<Rightarrow> Inr (Str (duration_call num unit))
          | None \<Rightarrow> Inr (Str (call_text basesFunc args)))
      else if basesFunc = ''!isEmpty'' then
        Inr (Str (''!('' @ join '', '' (map join_item args) @ ''.isEmpty())''))
      else Inr (Str (call_text basesFunc args)))"

definition transformFunction :: "field \<Rightarrow> field list \<Rightarrow> (error + bval) list \<Rightarrow> error + bval" where
  \<comment> \<open>\<open>largs\<close> holds, for each argument, what \<open>transformFieldExpression\<close> does on it;
      an entry is looked at only where the source transforms that argument\<close>
  "transformFunction func args largs =
     (let funcName = funcName_of func in
      if toLowerCase funcName = ''link'' \<and> length args = 1 then
        bindE (largs ! 0) (\<lambda>linkTarget.
          Inr (Str (''link('' @ js_String linkTarget @ '')'')))
      else if toLowerCase funcName = ''link'' \<and> length args = 2 then
        bindE (largs ! 0) (\<lambda>linkTarget.
        bindE (largs ! 1) (\<lambda>displayText.
          Inr (Str (''link('' @ js_String linkTarget @ '', '' @ js_String displayText @ '')''))))
      else
        (let basesFunc =
               (case functionMap (toLowerCase funcName) of Some b \<Rightarrow> b | None \<Rightarrow> funcName)
         in case date_before_arguments basesFunc args of
              Some text \<Rightarrow> Inr (Str text)
            | None \<Rightarrow> bindE (sequenceE largs) (function_switch basesFunc)))"

subsection \<open>Binary operations and property access\<close>

definition operatorMap :: "binop \<Rightarrow> string" where
  "operatorMap op =
     (case op of
        Eq \<Rightarrow> ''=='' | Neq \<Rightarrow> ''!='' | Gt \<Rightarrow> ''>'' | Ge \<Rightarrow> ''>='' | Lt \<Rightarrow> ''<'' | Le \<Rightarrow> ''<=''
      | Plus \<Rightarrow> ''+'' | Minus \<Rightarrow> ''-'' | Times \<Rightarrow> ''*'' | Divide \<Rightarrow> ''/'' | Modulo \<Rightarrow> ''%''
      | Amp \<Rightarrow> ''&&'' | Bar \<Rightarrow> ''||'')"

definition infix_text :: "bval \<Rightarrow> string \<Rightarrow> bval \<Rightarrow> string" where
  \<comment> \<open>the template \<open>`${left} ${operator} ${right}`\<close>\<close>
  "infix_text left operator right = js_String left @ '' '' @ operator @ '' '' @ js_String right"

definition stringLiteral :: "field \<Rightarrow> string option" where
  \<comment> \<open>the value, where \<open>f.type === "literal" && typeof f.value === "string"\<close>\<close>
  "stringLiteral f =
     (case f of Literal v \<Rightarrow> (case v of LString s \<Rightarrow> Some s | _ \<Rightarrow> None) | _ \<Rightarrow> None)"

definition hasToISO :: "field \<Rightarrow> bool" where
  \<comment> \<open>a literal whose value is an object with a \<open>toISO\<close> member: luxon's \<open>Duration\<close>
      and \<open>DateTime\<close> both have one\<close>
  "hasToISO f =
     (case f of
        Literal v \<Rightarrow> (case v of LDuration dur \<Rightarrow> True | LDate isoDate \<Rightarrow> True | _ \<Rightarrow> False)
      | _ \<Rightarrow> False)"

definition isLeftDate :: "field \<Rightarrow> bool" where
  "isLeftDate l =
     (isDateExpression l \<or>
      (case calledName l of Some n \<Rightarrow> toLowerCase n = ''date'' | None \<Rightarrow> False))"

definition isRightDuration :: "field \<Rightarrow> bool" where
  "isRightDuration r =
     ((case calledName r of Some n \<Rightarrow> toLowerCase n = ''dur'' | None \<Rightarrow> False) \<or> hasToISO r)"

definition unquoted :: "string \<Rightarrow> string" where
  \<comment> \<open>\<open>s.slice(1, -1)\<close> when \<open>s\<close> starts and ends with a double quote, else \<open>s\<close>\<close>
  "unquoted text =
     (if startsWith text [CHR 0x22] \<and> endsWith text [CHR 0x22] then butlast (tl text)
      else text)"

definition date_with_duration :: "binop \<Rightarrow> bval \<Rightarrow> bval \<Rightarrow> error + bval" where
  \<comment> \<open>the branch \<open>isLeftDate && isRightDuration\<close> of \<open>transformBinaryOp\<close>\<close>
  "date_with_duration op left right =
     bindE (as_string right) (\<lambda>text.
       let durationStr =
             (if op = Minus \<and> \<not> startsWith (unquoted text) ''-''
              then CHR ''-'' # unquoted text
              else unquoted text)
       in Inr (Str (js_String left @ '' + '' @ quoted durationStr)))"

definition transformBinaryOp :: "binop \<Rightarrow> field \<Rightarrow> field \<Rightarrow> bval \<Rightarrow> bval \<Rightarrow> error + bval" where
  \<comment> \<open>\<open>left\<close> and \<open>right\<close> are the two operands already transformed\<close>
  "transformBinaryOp op l r left right =
     (let operator = operatorMap op in
      if op = Amp \<or> op = Bar then
        (let logicalOp = (if op = Amp then KAnd else KOr) in
         if isFilterExpression l \<or> isFilterExpression r \<or>
            isLogicalObject left \<or> isLogicalObject right
         then Inr (flattenLogicalOperations logicalOp [left, right])
         else Inr (Str (infix_text left operator right)))
      else if (op = Plus \<or> op = Minus) \<and> isLeftDate l \<and> isRightDuration r then
        date_with_duration op left right
      else if (op = Plus \<or> op = Minus) \<and> isLeftDate l \<and> isDateExpression r then
        Inr (Str (infix_text left ''-'' right))
      else if op = Plus \<and> stringLiteral r \<noteq> None then
        Inr (Str (infix_text left ''+'' right))
      else Inr (Str (infix_text left operator right)))"

definition dateAccessors :: "string list" where
  "dateAccessors = [''year'', ''month'', ''day'', ''hour'', ''minute'', ''second'', ''millisecond'']"

definition transformIndexField :: "bval \<Rightarrow> field \<Rightarrow> error + bval \<Rightarrow> error + bval" where
  \<comment> \<open>\<open>object\<close> is the transformed \<open>field.object\<close>; \<open>lindex\<close> is what transforming the
      index does, looked at in the last branch only\<close>
  "transformIndexField object idx lindex =
     (case stringLiteral idx of
        Some v \<Rightarrow>
          if toLowerCase v \<in> set dateAccessors
          then Inr (Str (js_String object @ ''.'' @ toLowerCase v))
          else Inr (Str (mapDataviewPropertyToBaseProperty (js_String object @ ''.'' @ v)))
      | None \<Rightarrow>
          bindE lindex (\<lambda>i. Inr (Str (js_String object @ ''['' @ js_String i @ '']''))))"

definition negated_value :: "bval \<Rightarrow> error + bval" where
  \<comment> \<open>the \<open>negated\<close> case on the transformed child; \<open>"and" in null\<close> raises\<close>
  "negated_value negatedChild =
     (case negatedChild of Null \<Rightarrow> Inl TypeError | _ \<Rightarrow> Inr (Group KNot [negatedChild]))"

fun transformFieldExpression :: "field \<Rightarrow> error + bval" where
  "transformFieldExpression (Variable n) = Inr (Str (mapDataviewPropertyToBaseProperty n))"
| "transformFieldExpression (Literal v) = Inr (Str (transformLiteral v))"
| "transformFieldExpression (Index obj idx) =
     bindE (transformFieldExpression obj) (\<lambda>object.
       transformIndexField object idx (transformFieldExpression idx))"
| "transformFieldExpression (BinaryOp op l r) =
     bindE (transformFieldExpression l) (\<lambda>left.
     bindE (transformFieldExpression r) (\<lambda>right.
       transformBinaryOp op l r left right))"
| "transformFieldExpression (Function func args) =
     transformFunction func args (map transformFieldExpression args)"
| "transformFieldExpression (Negated child) =
     bindE (transformFieldExpression child) negated_value"
| "transformFieldExpression (ListF vs) =
     bindE (sequenceE (map transformFieldExpression vs)) (\<lambda>listItems.
       Inr (Str (''['' @ join '', '' (map join_item listItems) @ '']'')))"

subsection \<open>Sources\<close>

fun transformSource :: "source \<Rightarrow> bval" where
  "transformSource (Folder p) =
     (if p = [] then Null else Str (''file.inFolder('' @ quoted p @ '')''))"
| "transformSource (Tag t) =
     Str (''file.hasTag('' @ quoted (if startsWith t ''#'' then tl t else t) @ '')'')"
| "transformSource (Link f) = Str (''file.hasLink('' @ quoted f @ '')'')"
| "transformSource (NegatedSource child) =
     (let inner = transformSource child in
      if \<not> truthy inner then Null else Group KNot [inner])"
| "transformSource (BinaryOpSource op l r) =
     (let left = transformSource l; right = transformSource r in
      if \<not> truthy left \<and> \<not> truthy right then Null
      else if \<not> truthy left then right
      else if \<not> truthy right then left
      else flattenLogicalOperations (if op = ''&'' then KAnd else KOr) [left, right])"
| "transformSource Empty = Null"

definition combineFilters :: "bval \<Rightarrow> bval \<Rightarrow> bval" where
  "combineFilters sourceFilters whereFilters =
     (if \<not> truthy sourceFilters \<and> \<not> truthy whereFilters then Null
      else if \<not> truthy sourceFilters then whereFilters
      else if \<not> truthy whereFilters then sourceFilters
      else flattenLogicalOperations KAnd [sourceFilters, whereFilters])"

subsection \<open>The configuration and the query\<close>

record view =
  view_type :: string
  view_name :: string
  view_limit :: "int option"
  view_filters :: "bval option"
  view_order :: "bval list option"
  view_group_by :: "bval option"
  view_sort :: "(bval \<times> string) list option"

record config =
  display :: "(string \<times> string) list option"
  formulas :: "(string \<times> bval) list option"
  filters :: "bval option"
  view0 :: view \<comment> \<open>\<open>views[0]\<close>, the only element of \<open>views\<close>\<close>

definition obj_set :: "string \<Rightarrow> 'v \<Rightarrow> (string \<times> 'v) list \<Rightarrow> (string \<times> 'v) list" where
  \<comment> \<open>\<open>obj[key] = value\<close> on a plain object of strings or lowered values: an own key is
      overwritten, a new one is added, and \<open>__proto__\<close> adds none. The list keeps the keys
      in the order of their first assignment; JavaScript enumerates index-like keys first,
      so only the set of keys and their values are meant.\<close>
  "obj_set k v obj = (if k = ''__proto__'' then obj else AList.update k v obj)"

record transformedField =
  fieldName :: bval
  displayName :: string
  formula :: "bval option"
  formulaKey :: "string option"

definition transformNamedField :: "namedField \<Rightarrow> nat \<Rightarrow> error + transformedField" where
  "transformNamedField namedField index =
     (let shown = name namedField in
      if isFormulaField (field namedField) then
        (let key = replace_ws_runs (toLowerCase shown) in
         bindE (transformFieldExpression (field namedField)) (\<lambda>lowered.
           Inr \<lparr>fieldName = Str (''formula.'' @ key), displayName = shown,
                formula = Some lowered, formulaKey = Some key\<rparr>))
      else
        bindE (transformFieldExpression (field namedField)) (\<lambda>lowered.
          Inr \<lparr>fieldName = lowered, displayName = shown,
               formula = None, formulaKey = None\<rparr>))"

type_synonym columns = "(string \<times> string) list \<times> bval list \<times> (string \<times> bval) list"

definition add_column :: "transformedField \<Rightarrow> columns \<Rightarrow> columns" where
  \<comment> \<open>the body of the \<open>forEach\<close> of \<open>transformHeader\<close>, on \<open>display\<close>, \<open>columnOrder\<close>
      and \<open>formulas\<close>\<close>
  "add_column t cols =
     (case cols of (disp, columnOrder, forms) \<Rightarrow>
        (obj_set (js_String (fieldName t)) (displayName t) disp,
         columnOrder @ [fieldName t],
         (case (formula t, formulaKey t) of
            (Some f, Some k) \<Rightarrow> if truthy f \<and> k \<noteq> [] then obj_set k f forms else forms
          | _ \<Rightarrow> forms)))"

fun header_fields :: "namedField list \<Rightarrow> nat \<Rightarrow> columns \<Rightarrow> error + columns" where
  \<comment> \<open>\<open>header.fields.forEach((namedField, index) => ...)\<close>\<close>
  "header_fields [] index cols = Inr cols"
| "header_fields (namedField # rest) index cols =
     bindE (transformNamedField namedField index) (\<lambda>t.
       header_fields rest (Suc index) (add_column t cols))"

definition unsupported :: "string \<Rightarrow> error" where
  "unsupported keyword =
     Unsupported (keyword @ '' queries are not supported. Please use TABLE queries instead.'')"

definition transformHeader :: "queryHeader \<Rightarrow> config \<Rightarrow> error + config" where
  "transformHeader hdr result =
     (case hdr of
        TableQuery tableFields showId \<Rightarrow>
          (let result = result\<lparr>view0 := (view0 result)\<lparr>view_type := ''table''\<rparr>\<rparr> in
           if length tableFields > 0 then
             bindE (header_fields tableFields 0
                      (if showId then (obj_set ''file.name'' ''Name'' [], [Str ''file.name''], [])
                       else ([], [], [])))
               (\<lambda>(disp, columnOrder, forms).
                  Inr (result\<lparr>display := Some disp,
                              view0 := (view0 result)\<lparr>view_order := Some columnOrder\<rparr>,
                              formulas := (if length forms > 0 then Some forms
                                           else formulas result)\<rparr>))
           else if showId then
             Inr (result\<lparr>display := Some [(''file.name'', ''Name'')],
                         view0 := (view0 result)\<lparr>view_order := Some [Str ''file.name'']\<rparr>\<rparr>)
           else Inr result)
      | ListQuery format showId \<Rightarrow> Inl (unsupported ''LIST'')
      | TaskQuery \<Rightarrow> Inl (unsupported ''TASK'')
      | CalendarQuery calendarField \<Rightarrow> Inl (unsupported ''CALENDAR''))"

definition transformSortClause :: "(field \<times> direction) list \<Rightarrow> config \<Rightarrow> error + config" where
  "transformSortClause sortFields result =
     bindE (sequenceE (map (\<lambda>(f, d).
              bindE (transformFieldExpression f) (\<lambda>column.
                Inr (column, if d = Ascending then ''asc'' else ''desc''))) sortFields))
       (\<lambda>lowered. Inr (result\<lparr>view0 := (view0 result)\<lparr>view_sort := Some lowered\<rparr>\<rparr>))"

definition transformLimitClause :: "field \<Rightarrow> config \<Rightarrow> error + config" where
  "transformLimitClause amount result =
     (case numberLiteral amount of
        Some n \<Rightarrow> Inr (result\<lparr>view0 := (view0 result)\<lparr>view_limit := Some n\<rparr>\<rparr>)
      | None \<Rightarrow>
          bindE (transformFieldExpression amount) (\<lambda>limitExpr.
            case parseInt (js_String limitExpr) of
              Some parsed \<Rightarrow> Inr (result\<lparr>view0 := (view0 result)\<lparr>view_limit := Some parsed\<rparr>\<rparr>)
            | None \<Rightarrow> Inr result))"

definition transformGroupClause :: "namedField \<Rightarrow> config \<Rightarrow> error + config" where
  "transformGroupClause groupField result =
     bindE (transformFieldExpression (field groupField)) (\<lambda>lowered.
       Inr (result\<lparr>view0 := (view0 result)\<lparr>view_group_by := Some lowered\<rparr>\<rparr>))"

definition apply_operation :: "queryOperation \<Rightarrow> bval \<times> config \<Rightarrow> error + bval \<times> config" where
  \<comment> \<open>one turn of the loop of \<open>transform\<close>, on \<open>whereFilters\<close> and \<open>result\<close>\<close>
  "apply_operation operation st =
     (case st of (whereFilters, result) \<Rightarrow>
        (case operation of
           WhereStep clause \<Rightarrow>
             bindE (transformFieldExpression clause) (\<lambda>lowered. Inr (lowered, result))
         | SortByStep sortFields \<Rightarrow>
             bindE (transformSortClause sortFields result) (\<lambda>result'. Inr (whereFilters, result'))
         | LimitStep amount \<Rightarrow>
             bindE (transformLimitClause amount result) (\<lambda>result'. Inr (whereFilters, result'))
         | GroupStep groupField \<Rightarrow>
             bindE (transformGroupClause groupField result) (\<lambda>result'. Inr (whereFilters, result'))
         | FlattenStep flattenField \<Rightarrow> Inr (whereFilters, result)
         | ExtractStep extractFields \<Rightarrow> Inr (whereFilters, result)))"

fun run_operations :: "queryOperation list \<Rightarrow> bval \<times> config \<Rightarrow> error + bval \<times> config" where
  "run_operations [] st = Inr st"
| "run_operations (operation # rest) st =
     bindE (apply_operation operation st) (run_operations rest)"

definition initial_result :: config where
  "initial_result =
     \<lparr>display = None, formulas = None, filters = None,
      view0 = \<lparr>view_type = ''table'', view_name = ''Default view'', view_limit = None,
               view_filters = None, view_order = None, view_group_by = None,
               view_sort = None\<rparr>\<rparr>"

definition transform :: "query \<Rightarrow> bool \<Rightarrow> error + config" where
  "transform q placeFiltersInView =
     bindE (transformHeader (header q) initial_result) (\<lambda>result.
       let sourceFilters = transformSource (source q) in
       bindE (run_operations (operations q) (Null, result)) (\<lambda>(whereFilters, result).
         let combinedFilters = combineFilters sourceFilters whereFilters in
         if truthy combinedFilters then
           (if placeFiltersInView
            then Inr (result\<lparr>view0 := (view0 result)\<lparr>view_filters := Some combinedFilters\<rparr>\<rparr>)
            else Inr (result\<lparr>filters := Some combinedFilters\<rparr>))
         else Inr result))"

section \<open>Vocabulary of the properties\<close>

definition same_group :: "gkey \<Rightarrow> bval \<Rightarrow> bool" where
  \<comment> \<open>the value is a group under the given key\<close>
  "same_group k v = (case v of Group k' xs \<Rightarrow> k' = k | _ \<Rightarrow> False)"

definition members :: "gkey \<Rightarrow> bval \<Rightarrow> bval list" where
  \<comment> \<open>what a value contributes to a group under the given key: its own members when it
      is such a group, itself otherwise\<close>
  "members k v = (case v of Group k' xs \<Rightarrow> if k' = k then xs else [v] | _ \<Rightarrow> [v])"

fun wellformed :: "bval \<Rightarrow> bool" where
  \<comment> \<open>no \<open>null\<close> inside, one member under \<open>not\<close>, at least two under \<open>and\<close> and \<open>or\<close>,
      none of them a group under the same key\<close>
  "wellformed (Str s) = True"
| "wellformed Null = False"
| "wellformed (Group k xs) =
     ((\<forall>x \<in> set xs. wellformed x) \<and>
      (if k = KNot then length xs = 1
       else 2 \<le> length xs \<and> (\<forall>x \<in> set xs. \<not> same_group k x)))"

section \<open>Lowered values are well formed\<close>

lemma bindE_simps [simp]:
  "bindE (Inl e) f = Inl e"
  "bindE (Inr x) f = f x"
  by (simp_all add: bindE_def)

lemma bindE_Inr_iff: "bindE m f = Inr y \<longleftrightarrow> (\<exists>x. m = Inr x \<and> f x = Inr y)"
  by (cases m) simp_all

lemma function_switch_Str: "function_switch b args = Inr v \<Longrightarrow> \<exists>s. v = Str s"
  unfolding function_switch_def
  by (auto simp: bindE_Inr_iff split: if_splits option.splits prod.splits)

lemma transformFunction_Str: "transformFunction func args largs = Inr v \<Longrightarrow> \<exists>s. v = Str s"
  unfolding transformFunction_def Let_def
  by (auto simp: bindE_Inr_iff split: if_splits option.splits dest: function_switch_Str)

lemma transformIndexField_Str: "transformIndexField object idx lidx = Inr v \<Longrightarrow> \<exists>s. v = Str s"
  unfolding transformIndexField_def
  by (auto simp: bindE_Inr_iff split: if_splits option.splits)

lemma flattened_pair:
  "a \<noteq> Null \<Longrightarrow> b \<noteq> Null \<Longrightarrow> flattened k [a, b] = members k a @ members k b"
  by (cases a; cases b) (auto simp: members_def)

lemma members_wellformed:
  "wellformed v \<Longrightarrow> k \<noteq> KNot \<Longrightarrow>
     (\<forall>x \<in> set (members k v). wellformed x \<and> \<not> same_group k x) \<and> 1 \<le> length (members k v)"
  by (cases v) (auto simp: members_def same_group_def)

lemma flatten_pair:
  assumes "wellformed a" "wellformed b" "k \<noteq> KNot"
  shows "flattenLogicalOperations k [a, b] = Group k (members k a @ members k b)"
    and "wellformed (Group k (members k a @ members k b))"
proof -
  have ab: "a \<noteq> Null" "b \<noteq> Null" using assms by auto
  have la: "1 \<le> length (members k a)" and lb: "1 \<le> length (members k b)"
    using members_wellformed assms by blast+
  then have len: "2 \<le> length (members k a @ members k b)" by simp
  show "flattenLogicalOperations k [a, b] = Group k (members k a @ members k b)"
    using la lb by (cases "members k a"; cases "members k b")
      (simp_all add: flattenLogicalOperations_def flattened_pair [OF ab] Let_def del: flattened.simps)
  show "wellformed (Group k (members k a @ members k b))"
    using len assms members_wellformed [of a k] members_wellformed [of b k] by auto
qed

lemma transformBinaryOp_wellformed:
  assumes "transformBinaryOp op l r left right = Inr v" "wellformed left" "wellformed right"
  shows "wellformed v"
proof (cases "(op = Amp \<or> op = Bar) \<and> (isFilterExpression l \<or> isFilterExpression r \<or>
            isLogicalObject left \<or> isLogicalObject right)")
  case True
  then have "v = flattenLogicalOperations (if op = Amp then KAnd else KOr) [left, right]"
    using assms(1) by (auto simp: transformBinaryOp_def)
  then show ?thesis
    using flatten_pair [OF assms(2,3), of "if op = Amp then KAnd else KOr"] by auto
next
  case False
  then have "\<exists>s. v = Str s"
    using assms(1)
    by (auto simp: transformBinaryOp_def date_with_duration_def bindE_Inr_iff Let_def split: if_splits)
  then show ?thesis by auto
qed

lemma negated_value_eq:
  "negated_value c = (if c = Null then Inl TypeError else Inr (Group KNot [c]))"
  by (cases c) (simp_all add: negated_value_def)

lemma lowered_wellformed: "transformFieldExpression f = Inr v \<Longrightarrow> wellformed v"
proof (induction f arbitrary: v rule: transformFieldExpression.induct)
  case (3 obj idx)
  then show ?case by (auto simp: bindE_Inr_iff dest: transformIndexField_Str)
next
  case (4 op l r)
  then show ?case by (auto simp: bindE_Inr_iff intro: transformBinaryOp_wellformed)
next
  case (5 func args)
  then show ?case by (auto dest: transformFunction_Str)
next
  case (6 child)
  then show ?case by (auto simp: bindE_Inr_iff negated_value_eq split: if_splits)
qed (auto simp: bindE_Inr_iff)

section \<open>Logical combinations\<close>



section \<open>Headers\<close>

text \<open>
  C5. A query whose header is \<open>LIST\<close>, \<open>TASK\<close> or \<open>CALENDAR\<close> makes \<open>transform\<close> raise an
  error whose message names that keyword, whatever the source, the operations and the
  placement of the filters, and no configuration is returned; a configuration is returned
  only for a \<open>TABLE\<close> header.
\<close>

theorem unsupported_headers_raise:
  "transform \<lparr>header = ListQuery fmt showId, source = src, operations = ops\<rparr> p =
     Inl (Unsupported ''LIST queries are not supported. Please use TABLE queries instead.'') \<and>
   transform \<lparr>header = TaskQuery, source = src, operations = ops\<rparr> p =
     Inl (Unsupported ''TASK queries are not supported. Please use TABLE queries instead.'') \<and>
   transform \<lparr>header = CalendarQuery calendarField, source = src, operations = ops\<rparr> p =
     Inl (Unsupported ''CALENDAR queries are not supported. Please use TABLE queries instead.'') \<and>
   (transform q p = Inr cfg \<longrightarrow> (\<exists>tableFields showId. header q = TableQuery tableFields showId))"
  by (cases "header q") (simp_all add: transform_def transformHeader_def unsupported_def)

theorem unsupported_headers_raise_witness:
  "transform \<lparr>header = TableQuery [] False, source = Empty, operations = []\<rparr> True =
     Inr initial_result \<and>
   (\<exists>tableFields showId.
      header \<lparr>header = TableQuery [] False, source = Empty, operations = []\<rparr> =
        TableQuery tableFields showId)"
proof -
  have h: "transform \<lparr>header = TableQuery [] False, source = Empty, operations = []\<rparr> True =
             Inr initial_result"
    by (simp add: transform_def transformHeader_def initial_result_def combineFilters_def
        truthy_def)
  have ex: "\<exists>tableFields showId.
      header \<lparr>header = TableQuery [] False, source = Empty, operations = []\<rparr> =
        TableQuery tableFields showId"
    by (rule unsupported_headers_raise [THEN conjunct2, THEN conjunct2, THEN conjunct2,
          THEN mp, OF h])
  show ?thesis using h ex by (rule conjI)
qed

section \<open>Negation\<close>

lemma transformSource_shape:
  "transformSource s = Null \<or> (wellformed (transformSource s) \<and> transformSource s \<noteq> Str [])"
proof (induction s)
  case (BinaryOpSource op l r)
  show ?case
  proof (cases "transformSource l = Null \<or> transformSource r = Null")
    case True
    then show ?thesis using BinaryOpSource by (auto simp: Let_def truthy_def split: bval.splits)
  next
    case False
    then have wl: "wellformed (transformSource l)" and wr: "wellformed (transformSource r)"
      and tl: "truthy (transformSource l)" and tr: "truthy (transformSource r)"
      using BinaryOpSource by (auto simp: truthy_def split: bval.splits)
    have "transformSource (BinaryOpSource op l r) =
            flattenLogicalOperations (if op = ''&'' then KAnd else KOr)
              [transformSource l, transformSource r]"
      using tl tr by (simp add: Let_def del: flattened.simps)
    then show ?thesis
      using flatten_pair [OF wl wr, of "if op = ''&'' then KAnd else KOr"] by auto
  qed
qed (auto simp: Let_def truthy_def quoted_def split: bval.splits)

lemma transformSource_truthy: "truthy (transformSource s) \<longleftrightarrow> transformSource s \<noteq> Null"
  using transformSource_shape [of s] by (cases "transformSource s") (auto simp: truthy_def)

text \<open>
  C4 (amended). A negated field lowers to \<open>{not: [c]}\<close>, a list of exactly one element,
  where \<open>c\<close> is the lowered child, be it a leaf or a group. A negated source does the same
  when its child lowers to a predicate; when the child contributes none (it lowers to
  \<open>null\<close>, as the empty source does), the negation lowers to \<open>null\<close> as well.
\<close>

theorem negation_is_one_element_group:
  "(transformFieldExpression child = Inr c \<longrightarrow>
      transformFieldExpression (Negated child) = Inr (Group KNot [c])) \<and>
   (transformSource s \<noteq> Null \<longrightarrow>
      transformSource (NegatedSource s) = Group KNot [transformSource s]) \<and>
   (transformSource s = Null \<longrightarrow> transformSource (NegatedSource s) = Null)"
proof -
  have "transformFieldExpression (Negated child) = Inr (Group KNot [c])"
    if "transformFieldExpression child = Inr c"
  proof -
    have "c \<noteq> Null" using lowered_wellformed [OF that] by auto
    then show ?thesis using that by (simp add: negated_value_eq)
  qed
  moreover have "transformSource (NegatedSource s) = Group KNot [transformSource s]"
    if "transformSource s \<noteq> Null"
    using that transformSource_truthy [of s] by (simp add: Let_def)
  moreover have "transformSource (NegatedSource s) = Null" if "transformSource s = Null"
    using that by (simp add: Let_def truthy_def)
  ultimately show ?thesis by blast
qed

theorem negation_is_one_element_group_witness:
  "transformFieldExpression
     (Negated (BinaryOp Amp (BinaryOp Eq (Variable ''a'') (Literal (LNumber 1)))
                            (BinaryOp Eq (Variable ''b'') (Literal (LNumber 2))))) =
     Inr (Group KNot [Group KAnd [Str ''a == 1'', Str ''b == 2'']]) \<and>
   transformSource (NegatedSource (BinaryOpSource ''|'' (Tag ''#x'') (Folder ''y''))) =
     Group KNot [Group KOr [Str (''file.hasTag('' @ quoted ''x'' @ '')''),
                            Str (''file.inFolder('' @ quoted ''y'' @ '')'')]]"
proof -
  have f: "transformFieldExpression
             (BinaryOp Amp (BinaryOp Eq (Variable ''a'') (Literal (LNumber 1)))
                           (BinaryOp Eq (Variable ''b'') (Literal (LNumber 2)))) =
           Inr (Group KAnd [Str ''a == 1'', Str ''b == 2''])"
    by code_simp
  have s: "transformSource (BinaryOpSource ''|'' (Tag ''#x'') (Folder ''y'')) =
             Group KOr [Str (''file.hasTag('' @ quoted ''x'' @ '')''),
                        Str (''file.inFolder('' @ quoted ''y'' @ '')'')]"
    by code_simp
  have n: "transformSource (BinaryOpSource ''|'' (Tag ''#x'') (Folder ''y'')) \<noteq> Null"
    by (simp only: s) simp
  show ?thesis
    using negation_is_one_element_group [THEN conjunct1, THEN mp, OF f]
      negation_is_one_element_group [THEN conjunct2, THEN conjunct1, THEN mp, OF n]
    by (simp only: s) 
qed

theorem negated_empty_source_is_null:
  "transformSource (NegatedSource Empty) = Null \<and>
   transformSource (NegatedSource Empty) \<noteq> Group KNot [transformSource Empty]"
  by (simp add: truthy_def)

section \<open>Property names\<close>

lemma no_hyphen_unchanged:
  "CHR ''-'' \<notin> set p \<Longrightarrow> map (\<lambda>c. if c = CHR ''-'' then CHR ''_'' else c) p = p"
  by (induction p) auto

lemma mapDataviewPropertyToBaseProperty_cases:
  "mapDataviewPropertyToBaseProperty p =
     (case propertyMap (trim p) of
        Some mapped \<Rightarrow> mapped
      | None \<Rightarrow> map (\<lambda>c. if c = CHR ''-'' then CHR ''_'' else c) (trim p))"
  by (simp add: mapDataviewPropertyToBaseProperty_def Let_def no_hyphen_unchanged split: option.splits)




text \<open>
  C7 (amended). An index access whose key is a string that is, ignoring case, one of
  year, month, day, hour, minute, second and millisecond lowers to the property form
  \<open>base.accessor\<close> with the accessor in lower case: no prefix call is made and the rename
  table is not consulted. Any other string key gives the chain \<open>base.key\<close>, which is
  trimmed and looked up in the rename table; a chain that is no entry of the table has
  its hyphens replaced by underscores, and is otherwise unchanged.
\<close>

theorem index_lowering:
  assumes "transformFieldExpression obj = Inr object"
  shows "(toLowerCase key \<in> set dateAccessors \<longrightarrow>
            transformFieldExpression (Index obj (Literal (LString key))) =
              Inr (Str (js_String object @ ''.'' @ toLowerCase key))) \<and>
         (toLowerCase key \<notin> set dateAccessors \<longrightarrow>
            (\<forall>mapped. propertyMap (trim (js_String object @ ''.'' @ key)) = Some mapped \<longrightarrow>
               transformFieldExpression (Index obj (Literal (LString key))) = Inr (Str mapped)) \<and>
            (propertyMap (trim (js_String object @ ''.'' @ key)) = None \<longrightarrow>
               transformFieldExpression (Index obj (Literal (LString key))) =
                 Inr (Str (map (\<lambda>c. if c = CHR ''-'' then CHR ''_'' else c)
                             (trim (js_String object @ ''.'' @ key))))) \<and>
            (propertyMap (trim (js_String object @ ''.'' @ key)) = None \<and>
             CHR ''-'' \<notin> set (trim (js_String object @ ''.'' @ key)) \<longrightarrow>
               transformFieldExpression (Index obj (Literal (LString key))) =
                 Inr (Str (trim (js_String object @ ''.'' @ key)))))"
  using assms
  by (auto simp: transformIndexField_def stringLiteral_def mapDataviewPropertyToBaseProperty_cases
      no_hyphen_unchanged)

theorem index_lowering_witness:
  "transformFieldExpression (Index (Variable ''file'') (Literal (LString ''cday''))) =
     Inr (Str ''file.ctime'') \<and>
   transformFieldExpression (Index (Variable ''Due'') (Literal (LString ''Month''))) =
     Inr (Str ''Due.month'') \<and>
   transformFieldExpression (Index (Variable ''book'') (Literal (LString ''pages-read''))) =
     Inr (Str ''book.pages_read'')"
proof -
  have f: "transformFieldExpression (Variable ''file'') = Inr (Str ''file'')" by code_simp
  have d: "transformFieldExpression (Variable ''Due'') = Inr (Str ''Due'')" by code_simp
  have b: "transformFieldExpression (Variable ''book'') = Inr (Str ''book'')" by code_simp
  have k1: "toLowerCase ''cday'' \<notin> set dateAccessors" by code_simp
  have k2: "toLowerCase ''Month'' \<in> set dateAccessors" by code_simp
  have k3: "toLowerCase ''pages-read'' \<notin> set dateAccessors" by code_simp
  have m1: "propertyMap (trim (js_String (Str ''file'') @ ''.'' @ ''cday'')) = Some ''file.ctime''"
    by code_simp
  have m3: "propertyMap (trim (js_String (Str ''book'') @ ''.'' @ ''pages-read'')) = None"
    by code_simp
  have r1: "transformFieldExpression (Index (Variable ''file'') (Literal (LString ''cday''))) =
     Inr (Str ''file.ctime'')"
    by (rule index_lowering [OF f, THEN conjunct2, THEN mp, OF k1, THEN conjunct1, rule_format, OF m1])
  have r2: "transformFieldExpression (Index (Variable ''Due'') (Literal (LString ''Month''))) =
     Inr (Str (js_String (Str ''Due'') @ ''.'' @ toLowerCase ''Month''))"
    by (rule index_lowering [OF d, THEN conjunct1, THEN mp, OF k2])
  have r3: "transformFieldExpression (Index (Variable ''book'') (Literal (LString ''pages-read''))) =
     Inr (Str (map (\<lambda>c. if c = CHR ''-'' then CHR ''_'' else c)
                 (trim (js_String (Str ''book'') @ ''.'' @ ''pages-read''))))"
    by (rule index_lowering [OF b, THEN conjunct2, THEN mp, OF k3, THEN conjunct2, THEN conjunct1,
          THEN mp, OF m3])
  have e2: "js_String (Str ''Due'') @ ''.'' @ toLowerCase ''Month'' = ''Due.month''" by code_simp
  have e3: "map (\<lambda>c. if c = CHR ''-'' then CHR ''_'' else c)
                 (trim (js_String (Str ''book'') @ ''.'' @ ''pages-read'')) = ''book.pages_read''"
    by code_simp
  show ?thesis using r1 r2 r3 by (simp only: e2 e3) 
qed

theorem date_part_is_property_form:
  "transformFieldExpression (Index (Variable ''due'') (Literal (LString ''month''))) =
     Inr (Str ''due.month'') \<and>
   transformFieldExpression (Index (Variable ''due'') (Literal (LString ''month''))) \<noteq>
     Inr (Str ''month(due)'')"
  by code_simp




section \<open>Numbers and the duration pattern\<close>

lemma digit_not_ws: "is_digit c \<Longrightarrow> \<not> js_ws c"
  by (auto simp: is_digit_def js_ws_def)


lemma alpha_not_digit: "is_alpha c \<Longrightarrow> \<not> is_digit c"
  by (auto simp: is_alpha_def is_digit_def)


lemma digit_table:
  "map digit_val ''0123456789'' = [0..<10]" "list_all is_digit ''0123456789''"
  by code_simp+

lemma digit_char: "d < 10 \<Longrightarrow> is_digit (''0123456789'' ! d) \<and> digit_val (''0123456789'' ! d) = d"
proof -
  assume d: "d < 10"
  have "digit_val (''0123456789'' ! d) = map digit_val ''0123456789'' ! d"
    using d by (subst nth_map) simp_all
  also have "\<dots> = d" using d by (simp only: digit_table) simp
  finally have 1: "digit_val (''0123456789'' ! d) = d" .
  have "''0123456789'' ! d \<in> set ''0123456789''" using d by (intro nth_mem) simp
  then have 2: "is_digit (''0123456789'' ! d)" by (simp only: is_digit_def)
  show ?thesis using 1 2 by simp
qed

lemma show_nat_digits: "show_nat n \<noteq> [] \<and> (\<forall>c \<in> set (show_nat n). is_digit c)"
proof (induction n rule: show_nat.induct)
  case (1 n)
  show ?case
  proof (cases "n < 10")
    case True
    then show ?thesis using digit_char [of n] by (simp add: show_nat.simps [of n])
  next
    case False
    then show ?thesis
      using 1 digit_char [of "n mod 10"] by (simp add: show_nat.simps [of n])
  qed
qed



lemma digit_cases: "is_digit c \<Longrightarrow> c \<noteq> CHR ''-'' \<and> c \<noteq> CHR ''+'' \<and> c \<noteq> CHR ''x'' \<and> c \<noteq> CHR ''X'' \<and> c \<noteq> CHR 0x22"
  by (auto simp: is_digit_def)

lemma parseInt_digits:
  assumes "ds \<noteq> []" "\<forall>c \<in> set ds. is_digit c"
  shows "parseInt ds = Some (int (digits_value 10 ds))"
proof -
  obtain c cs where ds: "ds = c # cs" using assms(1) by (cases ds) auto
  have c: "is_digit c" using assms(2) ds by simp
  have 1: "dropWhile js_ws ds = ds" using c digit_not_ws ds by simp
  have 2: "take 2 ds \<noteq> ''0x''" "take 2 ds \<noteq> ''0X''"
    using assms(2) ds digit_cases by (cases cs; auto)+
  have 3: "takeWhile is_digit ds = ds" using assms(2) by simp
  show ?thesis
    using c digit_cases [OF c] assms(1) 2
    by (simp add: parseInt_def 1 Let_def 3) (simp add: ds)
qed





section \<open>The limit\<close>

lemma run_operations_append:
  "run_operations (xs @ ys) st = bindE (run_operations xs st) (run_operations ys)"
proof (induction xs arbitrary: st)
  case Nil
  show ?case by simp
next
  case (Cons x xs)
  show ?case by (cases "apply_operation x st") (simp_all add: Cons)
qed

text \<open>
  C9 (amended). A Limit operation sets the limit of the view when its amount is a number
  literal, or when the lowered amount parses as an integer by \<open>parseInt\<close>. For every other
  amount that lowers without raising, the operation changes nothing and raises nothing:
  the view keeps the limit it had, none unless an earlier Limit operation set one, and
  the configuration is the one the query gives without that operation.
\<close>

theorem limit_step:
  "(numberLiteral amount = Some n \<longrightarrow>
      transformLimitClause amount result =
        Inr (result\<lparr>view0 := (view0 result)\<lparr>view_limit := Some n\<rparr>\<rparr>)) \<and>
   (numberLiteral amount = None \<and> transformFieldExpression amount = Inr v \<and>
    parseInt (js_String v) = Some n \<longrightarrow>
      transformLimitClause amount result =
        Inr (result\<lparr>view0 := (view0 result)\<lparr>view_limit := Some n\<rparr>\<rparr>)) \<and>
   (numberLiteral amount = None \<and> transformFieldExpression amount = Inr v \<and>
    parseInt (js_String v) = None \<longrightarrow>
      transformLimitClause amount result = Inr result \<and>
      (\<forall>q before after p.
         operations q = before @ LimitStep amount # after \<longrightarrow>
         transform q p = transform (q\<lparr>operations := before @ after\<rparr>) p))"
proof -
  have skip: "transform q p = transform (q\<lparr>operations := before @ after\<rparr>) p"
    if a: "numberLiteral amount = None" "transformFieldExpression amount = Inr v"
      "parseInt (js_String v) = None"
      and q: "operations q = before @ LimitStep amount # after"
    for q before after p
  proof -
    have step: "apply_operation (LimitStep amount) st = Inr st" for st
      using a by (cases st) (simp add: apply_operation_def transformLimitClause_def)
    have "run_operations (before @ LimitStep amount # after) st =
          run_operations (before @ after) st" for st
      by (cases "run_operations before st") (simp_all add: run_operations_append step)
    then show ?thesis by (simp add: transform_def q)
  qed
  show ?thesis
    using skip by (auto simp: transformLimitClause_def)
qed

theorem limit_step_witness:
  "transformLimitClause (Literal (LNumber 5)) initial_result =
     Inr (initial_result\<lparr>view0 := (view0 initial_result)\<lparr>view_limit := Some 5\<rparr>\<rparr>) \<and>
   transformLimitClause (BinaryOp Plus (Literal (LNumber 10)) (Variable ''n'')) initial_result =
     Inr (initial_result\<lparr>view0 := (view0 initial_result)\<lparr>view_limit := Some 10\<rparr>\<rparr>) \<and>
   transform \<lparr>header = TableQuery [] True, source = Tag ''#book'',
              operations = [LimitStep (Variable ''count''),
                            GroupStep \<lparr>name = ''g'', field = Variable ''genre''\<rparr>]\<rparr> True =
   transform (\<lparr>header = TableQuery [] True, source = Tag ''#book'',
               operations = [LimitStep (Variable ''count''),
                             GroupStep \<lparr>name = ''g'', field = Variable ''genre''\<rparr>]\<rparr>
                \<lparr>operations := [] @ [GroupStep \<lparr>name = ''g'', field = Variable ''genre''\<rparr>]\<rparr>) True"
proof -
  have n1: "numberLiteral (Literal (LNumber 5)) = Some 5" by code_simp
  have n2: "numberLiteral (BinaryOp Plus (Literal (LNumber 10)) (Variable ''n'')) = None \<and>
            transformFieldExpression (BinaryOp Plus (Literal (LNumber 10)) (Variable ''n'')) =
              Inr (Str ''10 + n'') \<and>
            parseInt (js_String (Str ''10 + n'')) = Some 10"
    by code_simp
  have n3: "numberLiteral (Variable ''count'') = None \<and>
            transformFieldExpression (Variable ''count'') = Inr (Str ''count'') \<and>
            parseInt (js_String (Str ''count'')) = None"
    by code_simp
  have o: "operations \<lparr>header = TableQuery [] True, source = Tag ''#book'',
              operations = [LimitStep (Variable ''count''),
                            GroupStep \<lparr>name = ''g'', field = Variable ''genre''\<rparr>]\<rparr> =
           [] @ LimitStep (Variable ''count'') # [GroupStep \<lparr>name = ''g'', field = Variable ''genre''\<rparr>]"
    by simp
  show ?thesis
    using limit_step [THEN conjunct1, THEN mp, OF n1]
      limit_step [THEN conjunct2, THEN conjunct1, THEN mp, OF n2]
      limit_step [THEN conjunct2, THEN conjunct2, THEN mp, OF n3, THEN conjunct2, rule_format, OF o]
    by blast
qed

theorem earlier_limit_is_kept:
  "numberLiteral (Variable ''foo'') = None \<and>
   transformFieldExpression (Variable ''foo'') = Inr (Str ''foo'') \<and>
   parseInt (js_String (Str ''foo'')) = None \<and>
   transform \<lparr>header = TableQuery [] False, source = Empty,
              operations = [LimitStep (Literal (LNumber 5)), LimitStep (Variable ''foo'')]\<rparr> True =
     Inr (initial_result\<lparr>view0 := (view0 initial_result)\<lparr>view_limit := Some 5\<rparr>\<rparr>)"
  by code_simp

section \<open>Table columns\<close>

text \<open>
  C8. The key of a formula column is its alias in lower case with each run of white space
  replaced by an underscore; the position of the column is not used. Two formula columns
  with the same alias get the same key, and the formulas map keeps the second expression
  only.
\<close>

theorem same_alias_formulas_collide:
  "transform
     \<lparr>header = TableQuery
        [\<lparr>name = ''x'', field = BinaryOp Plus (Variable ''a'') (Literal (LNumber 1))\<rparr>,
         \<lparr>name = ''x'', field = BinaryOp Plus (Variable ''b'') (Literal (LNumber 1))\<rparr>] False,
      source = Empty, operations = []\<rparr> True =
   Inr (initial_result
        \<lparr>display := Some [(''formula.x'', ''x'')],
         formulas := Some [(''x'', Str ''b + 1'')],
         view0 := (view0 initial_result)
           \<lparr>view_order := Some [Str ''formula.x'', Str ''formula.x'']\<rparr>\<rparr>)"
  by code_simp










section \<open>Durations\<close>

lemma show_int_nat: "show_int (int k) = show_nat k"
  by (simp add: show_int_def)

lemma dur_tables:
  "functionMap ''dur'' = Some ''duration''"
  "''dur'' \<noteq> ''link''" "''duration'' \<noteq> ''date''" "''duration'' \<noteq> ''contains''"
  by code_simp+










section \<open>Date arithmetic\<close>

lemma durMatch_Some:
  "durMatch s = Some (num, unit) \<Longrightarrow> num \<noteq> [] \<and> (\<forall>c \<in> set num. is_digit c)"
proof (induction s)
  case Nil
  then show ?case by simp
next
  case (Cons c cs)
  show ?case
  proof (cases "match_at (c # cs)")
    case None
    then show ?thesis using Cons by simp
  next
    case (Some g)
    then have "g = (num, unit)" using Cons.prems by simp
    then have "num = takeWhile is_digit (c # cs)" "num \<noteq> []"
      using Some by (auto simp: match_at_def Let_def split: if_splits)
    then show ?thesis using set_takeWhileD by metis
  qed
qed

lemma digit_head_no_minus: "x \<noteq> [] \<Longrightarrow> is_digit (hd x) \<Longrightarrow> \<not> startsWith x ''-''"
  using digit_cases by (cases x) (auto simp: startsWith_def)

lemma duration_call_shape:
  assumes "num \<noteq> []" "\<forall>c \<in> set num. is_digit c"
  shows "\<exists>x. duration_call num unit = quoted x \<and> x \<noteq> [] \<and> is_digit (hd x)"
proof -
  have p: "parseInt num = Some (int (digits_value 10 num))"
    using parseInt_digits assms by blast
  have n: "is_digit (hd num)" using assms by (cases num) auto
  have h: "show_nat k @ t \<noteq> [] \<and> is_digit (hd (show_nat k @ t))" for k t
    using show_nat_digits [of k] by (cases "show_nat k") auto
  have e: "show_int (int (digits_value 10 num) * 7) = show_nat (digits_value 10 num * 7)"
    using show_int_nat [of "digits_value 10 num * 7"] by simp
  show ?thesis
    unfolding duration_call_def Let_def p
    using assms(1) n h by (auto simp: show_num_def e)
qed

lemma unquoted_quoted: "unquoted (quoted x) = x"
  by (simp add: unquoted_def quoted_def startsWith_def endsWith_def butlast_append)

lemma unquoted_plain: "s \<noteq> [] \<Longrightarrow> hd s \<noteq> CHR 0x22 \<Longrightarrow> unquoted s = s"
  by (cases s) (auto simp: unquoted_def startsWith_def)

lemma dur_call_shape:
  assumes f: "toLowerCase f = ''dur''"
    and r: "transformFieldExpression (Function (Variable f) args) = Inr v"
  shows "\<exists>text. v = Str text \<and> \<not> startsWith (unquoted text) ''-''"
proof -
  have sw: "function_switch ''duration'' vs = Inr v \<Longrightarrow>
              \<exists>text. v = Str text \<and> \<not> startsWith (unquoted text) ''-''" for vs
  proof -
    assume a: "function_switch ''duration'' vs = Inr v"
    have plain: "\<not> startsWith (unquoted (call_text ''duration'' vs)) ''-''"
      by (simp add: call_text_def unquoted_plain startsWith_def)
    have matched: "\<not> startsWith (unquoted (duration_call num unit)) ''-''"
      if "durMatch t = Some (num, unit)" for t num unit
      using duration_call_shape [of num unit] durMatch_Some [OF that] digit_head_no_minus
      by (auto simp: unquoted_quoted)
    show ?thesis
      using a plain matched
      by (auto simp: function_switch_def dur_tables bindE_Inr_iff
          split: if_splits option.splits prod.splits)
  qed
  show ?thesis
    using f r sw
    by (auto simp: transformFunction_def funcName_of_def dur_tables date_before_arguments_def
        bindE_Inr_iff)
qed

lemma date_expression_lowers_to_text:
  "isDateExpression l \<Longrightarrow> transformFieldExpression l = Inr v \<Longrightarrow> \<exists>s. v = Str s"
  by (cases l)
    (auto simp: isDateExpression_def calledName_def isDateTimeLiteral_def variableName_def
      dest: transformFunction_Str split: option.splits)

lemma literal_duration_text:
  assumes "0 \<le> years d" "0 \<le> months d" "0 \<le> weeks d" "0 \<le> days d" "0 \<le> hours d"
    "0 \<le> minutes d" "0 \<le> seconds d"
  shows "\<not> startsWith (unquoted (transformLiteral (LDuration d))) ''-''"
proof -
  have t: "\<not> startsWith (unquoted (duration_text n unit)) ''-''" if "0 \<le> n" for n unit
  proof -
    have "show_int n = show_nat (nat n)" using that by (simp add: show_int_def)
    then have "show_int n @ t \<noteq> [] \<and> is_digit (hd (show_int n @ t))" for t
      using show_nat_digits [of "nat n"] by (cases "show_nat (nat n)") auto
    then show ?thesis
      using digit_head_no_minus by (simp add: duration_text_def unquoted_quoted)
  qed
  have z: "\<not> startsWith (unquoted (quoted ''0 days'')) ''-''"
    by (simp add: unquoted_quoted startsWith_def)
  show ?thesis using assms t z by (simp add: transformLiteral_def)
qed

text \<open>
  C2 (amended). When the left operand of \<open>+\<close> or \<open>-\<close> is a date expression (a call of
  \<open>date\<close> or \<open>now\<close>, or a date literal) and the right operand is a call of \<open>dur\<close> or a
  duration literal, and both lower without raising, both lower to texts and the operation
  lowers to the date text, \<open>+\<close> and the quoted duration text: unchanged for an addition,
  prefixed with a minus sign for a subtraction unless it begins with one already, in
  which case it is left as it is. The text of a \<open>dur\<close> call, and that of a literal whose
  components are not negative, never begins with a minus sign.
\<close>

theorem date_arithmetic:
  assumes op: "op = Plus \<or> op = Minus"
    and l: "isDateExpression l"
    and r: "(\<exists>n. calledName r = Some n \<and> toLowerCase n = ''dur'') \<or> (\<exists>d. r = Literal (LDuration d))"
    and ll: "transformFieldExpression l = Inr left"
    and lr: "transformFieldExpression r = Inr right"
  shows "\<exists>date dtext.
           left = Str date \<and> right = Str dtext \<and>
           transformFieldExpression (BinaryOp op l r) =
             Inr (Str (date @ '' + '' @
                       quoted ((if op = Minus \<and> \<not> startsWith (unquoted dtext) ''-'' then ''-'' else []) @
                               unquoted dtext))) \<and>
           ((\<exists>n. calledName r = Some n) \<longrightarrow> \<not> startsWith (unquoted dtext) ''-'') \<and>
           (\<forall>d. r = Literal (LDuration d) \<and> 0 \<le> years d \<and> 0 \<le> months d \<and> 0 \<le> weeks d \<and>
                0 \<le> days d \<and> 0 \<le> hours d \<and> 0 \<le> minutes d \<and> 0 \<le> seconds d \<longrightarrow>
                \<not> startsWith (unquoted dtext) ''-'')"
proof -
  obtain date where left: "left = Str date"
    using date_expression_lowers_to_text [OF l ll] by blast
  have rd: "isRightDuration r"
    using r by (auto simp: isRightDuration_def hasToISO_def)
  have ld: "isLeftDate l" using l by (simp add: isLeftDate_def)
  have right: "\<exists>dtext. right = Str dtext \<and>
                 ((\<exists>n. calledName r = Some n) \<longrightarrow> \<not> startsWith (unquoted dtext) ''-'') \<and>
                 (\<forall>d. r = Literal (LDuration d) \<and> 0 \<le> years d \<and> 0 \<le> months d \<and> 0 \<le> weeks d \<and>
                      0 \<le> days d \<and> 0 \<le> hours d \<and> 0 \<le> minutes d \<and> 0 \<le> seconds d \<longrightarrow>
                      \<not> startsWith (unquoted dtext) ''-'')"
    using r
  proof
    assume "\<exists>n. calledName r = Some n \<and> toLowerCase n = ''dur''"
    then obtain n where n: "calledName r = Some n" "toLowerCase n = ''dur''" by blast
    then obtain args where "r = Function (Variable n) args"
      by (cases r) (auto simp: calledName_def variableName_def split: field.splits)
    then show ?thesis using dur_call_shape [OF n(2)] lr by auto
  next
    assume "\<exists>d. r = Literal (LDuration d)"
    then obtain d where d: "r = Literal (LDuration d)" by blast
    then have "right = Str (transformLiteral (LDuration d))" using lr by simp
    then show ?thesis using literal_duration_text [of d] d by (auto simp: calledName_def)
  qed
  then obtain dtext where dtext: "right = Str dtext"
    and t1: "(\<exists>n. calledName r = Some n) \<longrightarrow> \<not> startsWith (unquoted dtext) ''-''"
    and t2: "\<forall>d. r = Literal (LDuration d) \<and> 0 \<le> years d \<and> 0 \<le> months d \<and> 0 \<le> weeks d \<and>
                0 \<le> days d \<and> 0 \<le> hours d \<and> 0 \<le> minutes d \<and> 0 \<le> seconds d \<longrightarrow>
                \<not> startsWith (unquoted dtext) ''-''"
    by blast
  have "transformFieldExpression (BinaryOp op l r) =
             Inr (Str (date @ '' + '' @
                       quoted ((if op = Minus \<and> \<not> startsWith (unquoted dtext) ''-'' then ''-'' else []) @
                               unquoted dtext)))"
    using op ll lr ld rd
    by (auto simp: left dtext transformBinaryOp_def date_with_duration_def as_string_def
        js_String_def Let_def)
  then show ?thesis using left dtext t1 t2 by blast
qed

theorem date_arithmetic_witness:
  "transformFieldExpression
     (BinaryOp Minus (Function (Variable ''date'') [Variable ''today''])
                     (Function (Variable ''dur'') [Variable ''7 days''])) =
     Inr (Str (''now() + '' @ quoted ''-7 days'')) \<and>
   transformFieldExpression
     (BinaryOp Plus (Function (Variable ''date'') [Variable ''today''])
                    (Function (Variable ''dur'') [Variable ''7 days''])) =
     Inr (Str (''now() + '' @ quoted ''7 days''))"
proof -
  let ?l = "Function (Variable ''date'') [Variable ''today'']"
  let ?r = "Function (Variable ''dur'') [Variable ''7 days'']"
  have l: "isDateExpression ?l" by code_simp
  have r: "(\<exists>n. calledName ?r = Some n \<and> toLowerCase n = ''dur'') \<or> (\<exists>d. ?r = Literal (LDuration d))"
  proof -
    have "calledName ?r = Some ''dur'' \<and> toLowerCase ''dur'' = ''dur''" by code_simp
    then show ?thesis by blast
  qed
  have ll: "transformFieldExpression ?l = Inr (Str ''now()'')" by code_simp
  have lr: "transformFieldExpression ?r = Inr (Str (quoted ''7 days''))" by code_simp
  have e: "\<not> startsWith ''7 days'' ''-''" "unquoted (quoted ''7 days'') = ''7 days''"
    by code_simp+
  have m: "Minus = Plus \<or> Minus = Minus" and p: "Plus = Plus \<or> Plus = Minus" by simp_all
  from date_arithmetic [OF m l r ll lr]
  have 1: "transformFieldExpression (BinaryOp Minus ?l ?r) =
     Inr (Str (''now() + '' @ quoted ''-7 days''))"
    by (simp add: e del: transformFieldExpression.simps)
  from date_arithmetic [OF p l r ll lr]
  have 2: "transformFieldExpression (BinaryOp Plus ?l ?r) =
     Inr (Str (''now() + '' @ quoted ''7 days''))"
    by (simp add: e del: transformFieldExpression.simps)
  show ?thesis using 1 2 by (rule conjI)
qed

theorem negative_literal_is_not_negated:
  "transformFieldExpression
     (Literal (LDuration \<lparr>years = 0, months = 0, weeks = 0, days = - 7, hours = 0,
                          minutes = 0, seconds = 0\<rparr>)) = Inr (Str (quoted ''-7 days'')) \<and>
   transformFieldExpression
     (BinaryOp Minus (Function (Variable ''date'') [Variable ''today''])
        (Literal (LDuration \<lparr>years = 0, months = 0, weeks = 0, days = - 7, hours = 0,
                             minutes = 0, seconds = 0\<rparr>))) =
     Inr (Str (''now() + '' @ quoted ''-7 days'')) \<and>
   transformFieldExpression
     (BinaryOp Plus (Function (Variable ''date'') [Variable ''today''])
        (Literal (LDuration \<lparr>years = 0, months = 0, weeks = 0, days = - 7, hours = 0,
                             minutes = 0, seconds = 0\<rparr>))) =
     Inr (Str (''now() + '' @ quoted ''-7 days''))"
  by code_simp

end
